theory Spec2Isabelle
  imports Complex_Main
begin

section \<open>Monte-Carlo tree search of libboardgame_mcts: data model\<close>

text \<open>
  The search is a class template over a simulation state \<open>S\<close>, a move type \<open>M\<close> and a
  maximal number of players \<open>P\<close>. A move is represented by its integer \<open>M::to_int()\<close>;
  players are numbered from 0. A value of the type \<open>Float\<close> of counts and values is the
  real number it stands for, and comparisons are those of the real numbers. The largest
  finite value \<open>numeric_limits<Float>::max()\<close> is a parameter \<open>Float_max\<close> of the functions
  that use it. In \<open>select_child\<close> and in the search loop the arithmetic operations of
  \<open>Float\<close>, which round their results, are the fields of a parameter of type
  \<open>Float_ops\<close>; in the other functions sums and products are exact. The unsigned machine
  integers of the source are natural numbers; where the source subtracts them the
  wrap-around is written out.
\<close>

type_synonym Float = real

type_synonym Move = nat

text \<open>
  The largest finite values of the IEEE single and double formats, for the examples
  in which \<open>Float\<close> is \<open>float\<close>.
\<close>

definition FLT_MAX :: real where
  "FLT_MAX = 2 ^ 128 - 2 ^ 104"

definition DBL_MAX :: real where
  "DBL_MAX = 2 ^ 1024 - 2 ^ 971"

text \<open>
  The operations of \<open>Float\<close>: sum, difference, product, quotient and square root of
  values of \<open>Float\<close>, and the conversion of a \<open>size_t\<close> to \<open>Float\<close>.
\<close>

record Float_ops =
  f_add :: "Float \<Rightarrow> Float \<Rightarrow> Float"
  f_sub :: "Float \<Rightarrow> Float \<Rightarrow> Float"
  f_mul :: "Float \<Rightarrow> Float \<Rightarrow> Float"
  f_div :: "Float \<Rightarrow> Float \<Rightarrow> Float"
  f_sqrt :: "Float \<Rightarrow> Float"
  f_of_nat :: "nat \<Rightarrow> Float"

text \<open>The operations without rounding.\<close>

definition exact_ops :: Float_ops where
  "exact_ops =
     \<lparr> f_add = (\<lambda>a b. a + b), f_sub = (\<lambda>a b. a - b), f_mul = (\<lambda>a b. a * b),
       f_div = (\<lambda>a b. a / b), f_sqrt = sqrt, f_of_nat = real \<rparr>"

text \<open>
  The operations of the IEEE single format, for \<open>Float = float\<close>: the exact result
  rounded to the nearest value with 24 binary digits, to the one with an even last
  digit when two are equally near. \<open>two_to e\<close> is the power of 2 with the exponent \<open>e\<close>.
  The exponent is not lower than -126, as for the subnormal numbers; results beyond
  \<open>FLT_MAX\<close>, which the format replaces by an infinity, are outside of this model.
\<close>

definition two_to :: "int \<Rightarrow> real" where
  "two_to e = (if 0 \<le> e then 2 ^ nat e else 1 / 2 ^ nat (- e))"

definition round_to_even :: "real \<Rightarrow> int" where
  "round_to_even y =
     (let f = \<lfloor>y\<rfloor>; d = y - of_int f in
      if d < 1 / 2 then f else if d > 1 / 2 then f + 1 else if even f then f else f + 1)"

definition float_round :: "real \<Rightarrow> real" where
  "float_round x =
     (if x = 0 then 0
      else (let e = max \<lfloor>log 2 \<bar>x\<bar>\<rfloor> (- 126);
                u = two_to (e - 23)
            in u * of_int (round_to_even (x / u))))"

text \<open>The exponent that \<open>float_round\<close> takes for \<open>x\<close>.\<close>

definition float_exp :: "real \<Rightarrow> int" where
  "float_exp x = max \<lfloor>log 2 \<bar>x\<bar>\<rfloor> (- 126)"

definition float_ops :: Float_ops where
  "float_ops =
     \<lparr> f_add = (\<lambda>a b. float_round (a + b)), f_sub = (\<lambda>a b. float_round (a - b)),
       f_mul = (\<lambda>a b. float_round (a * b)), f_div = (\<lambda>a b. float_round (a / b)),
       f_sqrt = (\<lambda>a. float_round (sqrt a)), f_of_nat = (\<lambda>n. float_round (real n)) \<rparr>"

text \<open>
  A node of the tree with the getters that \<open>Search.h\<close> uses. The children of a node are a
  contiguous range of the arena, visited by \<open>ChildIterator\<close> in allocation order: here the
  list \<open>children\<close>. A pointer to a child of a given node is the position of the child in
  that list, the null pointer is \<open>None\<close>.
\<close>

datatype Node = Node
  (get_move: Move)
  (get_count: Float)
  (get_value: Float)
  (get_rave_count: Float)
  (get_rave_value: Float)
  (children: "Node list")

definition has_children :: "Node \<Rightarrow> bool" where
  "has_children node = (children node \<noteq> [])"

section \<open>Search::get_max_nodes\<close>

text \<open>
  \<open>sizeof(Node)\<close> and \<open>numeric_limits<NodeIndex>::max()\<close> are declared outside of
  \<open>Search.h\<close> and are parameters. The divisions are those of \<open>size_t\<close>, which cannot
  overflow.
\<close>

definition get_max_nodes :: "nat \<Rightarrow> nat \<Rightarrow> nat \<Rightarrow> nat" where
  "get_max_nodes sizeof_Node NodeIndex_max memory =
     (let max_nodes = memory div sizeof_Node div 2 in
      min max_nodes NodeIndex_max)"

text \<open>
  The constructor of \<open>Search\<close> takes the memory for both trees, with 0 for a default
  value, and constructs \<open>m_tree\<close> and \<open>m_tmp_tree\<close> with \<open>m_max_nodes\<close> nodes each.
\<close>

definition Search_tree_memory :: "nat \<Rightarrow> nat" where
  "Search_tree_memory memory = (if memory = 0 then 256000000 else memory)"

definition Search_max_nodes :: "nat \<Rightarrow> nat \<Rightarrow> nat \<Rightarrow> nat" where
  "Search_max_nodes sizeof_Node NodeIndex_max memory =
     get_max_nodes sizeof_Node NodeIndex_max (Search_tree_memory memory)"

section \<open>IntervalChecker\<close>

text \<open>
  The members of \<open>IntervalChecker\<close>. The time source and the wrapped predicate belong to
  the environment: \<open>time_source k\<close> is the reading of the \<open>k\<close>-th call of the time source
  and \<open>func k\<close> the result of the \<open>k\<close>-th call of the predicate (counted from 0). The two
  counters \<open>nu_time_calls\<close> and \<open>nu_function_calls\<close> record how often each has been called.
\<close>

record IntervalChecker =
  m_is_first_check :: bool
  m_is_deterministic :: bool
  m_result :: bool
  m_count :: nat
  m_count_interval :: nat
  m_time_interval :: real
  m_last_time :: real
  nu_time_calls :: nat
  nu_function_calls :: nat

definition unsigned_int_max :: nat where
  "unsigned_int_max = 4294967295"

text \<open>The constructor; \<open>m_last_time\<close> is not initialised by it and is an argument here.\<close>

definition IntervalChecker_init :: "real \<Rightarrow> real \<Rightarrow> IntervalChecker" where
  "IntervalChecker_init time_interval last_time =
     \<lparr> m_is_first_check = True, m_is_deterministic = False, m_result = False,
       m_count = 1, m_count_interval = 1, m_time_interval = time_interval,
       m_last_time = last_time, nu_time_calls = 0, nu_function_calls = 0 \<rparr>"

definition call_function :: "(nat \<Rightarrow> bool) \<Rightarrow> IntervalChecker \<Rightarrow> bool \<times> IntervalChecker" where
  "call_function func c =
     (func (nu_function_calls c), c\<lparr> nu_function_calls := Suc (nu_function_calls c) \<rparr>)"

definition call_time_source :: "(nat \<Rightarrow> real) \<Rightarrow> IntervalChecker \<Rightarrow> real \<times> IntervalChecker" where
  "call_time_source time_source c =
     (time_source (nu_time_calls c), c\<lparr> nu_time_calls := Suc (nu_time_calls c) \<rparr>)"

definition adjust_count_interval :: "real \<Rightarrow> real \<Rightarrow> nat \<Rightarrow> nat" where
  "adjust_count_interval time_interval diff count_interval =
     (let adjust_factor =
            (if diff = 0 then 10
             else (let a = time_interval / diff in
                   if a > 10 then 10 else if a < 1 / 10 then 1 / 10 else a));
          new_count_interval = adjust_factor * real count_interval
      in if new_count_interval > real unsigned_int_max then unsigned_int_max
         else if new_count_interval < 1 then 1
         else nat \<lfloor>new_count_interval\<rfloor>)"

definition check_expensive ::
  "(nat \<Rightarrow> real) \<Rightarrow> (nat \<Rightarrow> bool) \<Rightarrow> IntervalChecker \<Rightarrow> bool \<times> IntervalChecker" where
  "check_expensive time_source func c =
     (if m_result c then (True, c)
      else if m_is_deterministic c then
        (let (r, c1) = call_function func c;
             c2 = c1\<lparr> m_result := r, m_count := m_count_interval c1 \<rparr>
         in (m_result c2, c2))
      else
        (let (time, c1) = call_time_source time_source c;
             c2 = (if \<not> m_is_first_check c1 then
                     (let diff = time - m_last_time c1;
                          c' = c1\<lparr> m_count_interval :=
                                 adjust_count_interval (m_time_interval c1) diff
                                   (m_count_interval c1) \<rparr>;
                          (r, c'') = call_function func c'
                      in c''\<lparr> m_result := r \<rparr>)
                   else c1\<lparr> m_is_first_check := False \<rparr>);
             c3 = c2\<lparr> m_last_time := time, m_count := m_count_interval c2 \<rparr>
         in (m_result c3, c3)))"

definition set_deterministic :: "nat \<Rightarrow> IntervalChecker \<Rightarrow> IntervalChecker" where
  "set_deterministic interval c =
     c\<lparr> m_is_deterministic := True, m_count := interval, m_count_interval := interval \<rparr>"

text \<open>
  The operations of \<open>IntervalChecker.cpp\<close> that a client can apply to a checker, and a run
  of a sequence of them which collects the results of the calls of \<open>check_expensive\<close>.
\<close>

datatype checker_op = CheckExpensive | SetDeterministic nat

fun run_ops ::
  "(nat \<Rightarrow> real) \<Rightarrow> (nat \<Rightarrow> bool) \<Rightarrow> checker_op list \<Rightarrow> IntervalChecker
     \<Rightarrow> bool list \<times> IntervalChecker" where
  "run_ops time_source func [] c = ([], c)"
| "run_ops time_source func (CheckExpensive # ops) c =
     (let (r, c1) = check_expensive time_source func c;
          (rs, c2) = run_ops time_source func ops c1
      in (r # rs, c2))"
| "run_ops time_source func (SetDeterministic n # ops) c =
     run_ops time_source func ops (set_deterministic n c)"

section \<open>Final selection and the cannot-change test\<close>

text \<open>
  The test \<open>exclude_moves != 0 && find(...) != exclude_moves->end()\<close> of
  \<open>select_child_final\<close>; the null pointer is \<open>None\<close>.
\<close>

definition is_excluded :: "Move list option \<Rightarrow> Move \<Rightarrow> bool" where
  "is_excluded exclude_moves mv =
     (case exclude_moves of None \<Rightarrow> False | Some ms \<Rightarrow> mv \<in> set ms)"

text \<open>
  One pass of the loop of \<open>select_child_final\<close> over the child at position \<open>i\<close>; the
  accumulator is \<open>(result, max_count, max_count_value)\<close>.
\<close>

definition select_child_final_step ::
  "Move list option \<Rightarrow> nat \<Rightarrow> Node \<Rightarrow> nat option \<times> Float \<times> Float
     \<Rightarrow> nat option \<times> Float \<times> Float" where
  "select_child_final_step exclude_moves i c acc =
     (case acc of (result, max_count, max_count_value) \<Rightarrow>
        (let count = get_count c in
         if count > max_count \<or> (count = max_count \<and> get_value c > max_count_value) then
           (if is_excluded exclude_moves (get_move c) then acc
            else (Some i, count, get_value c))
         else acc))"

fun select_child_final_loop ::
  "Move list option \<Rightarrow> Node list \<Rightarrow> nat \<Rightarrow> nat option \<times> Float \<times> Float
     \<Rightarrow> nat option \<times> Float \<times> Float" where
  "select_child_final_loop exclude_moves [] i acc = acc"
| "select_child_final_loop exclude_moves (c # cs) i acc =
     select_child_final_loop exclude_moves cs (Suc i)
       (select_child_final_step exclude_moves i c acc)"

definition select_child_final :: "Float \<Rightarrow> Node \<Rightarrow> Move list option \<Rightarrow> nat option" where
  "select_child_final Float_max node exclude_moves =
     fst (select_child_final_loop exclude_moves (children node) 0 (None, - 1, - Float_max))"

text \<open>\<open>select_move\<close> returns its result and the value of the output parameter \<open>mv\<close>.\<close>

definition select_move :: "Float \<Rightarrow> Node \<Rightarrow> Move list option \<Rightarrow> Move \<Rightarrow> bool \<times> Move" where
  "select_move Float_max root_node exclude_moves mv =
     (case select_child_final Float_max root_node exclude_moves of
        Some child \<Rightarrow> (True, get_move (children root_node ! child))
      | None \<Rightarrow> (False, mv))"

text \<open>
  The loop of \<open>check_move_cannot_change\<close>; the accumulator is
  \<open>(max_count, second_max_count)\<close>.
\<close>

fun cannot_change_loop :: "Node list \<Rightarrow> Float \<times> Float \<Rightarrow> Float \<times> Float" where
  "cannot_change_loop [] acc = acc"
| "cannot_change_loop (c # cs) (max_count, second_max_count) =
     (let count = get_count c in
      if count > max_count then cannot_change_loop cs (count, max_count)
      else cannot_change_loop cs (max_count, second_max_count))"

definition check_move_cannot_change :: "Node \<Rightarrow> Float \<Rightarrow> Float \<Rightarrow> bool" where
  "check_move_cannot_change root_node count remaining =
     (if remaining > count then False
      else (case cannot_change_loop (children root_node) (0, 0) of
              (max_count, second_max_count) \<Rightarrow> max_count > second_max_count + remaining))"

section \<open>The members of Search\<close>

record Search =
  m_rave :: bool
  m_rave_check_same :: bool
  m_weight_rave_updates :: bool
  m_rave_equivalence :: Float
  m_reuse_subtree :: bool
  m_reuse_tree :: bool
  m_prune_full_tree :: bool
  m_prune_count_start :: Float
  m_min_simulations :: Float
  m_max_count :: Float
  m_max_float_count :: Float
  m_reuse_count :: Float

text \<open>
  The constructor of \<open>Search\<close>, with the number \<open>digits\<close> of binary digits of \<open>Float\<close>.
  It leaves \<open>m_min_simulations\<close>, \<open>m_max_count\<close> and \<open>m_reuse_count\<close> without a value;
  \<open>search\<close> assigns them before they are read, and they are 0 here. The setters of the
  parameters are record updates.
\<close>

definition Search_init :: "nat \<Rightarrow> Search" where
  "Search_init digits =
     \<lparr> m_rave = False, m_rave_check_same = False, m_weight_rave_updates = True,
       m_rave_equivalence = 1000, m_reuse_subtree = True, m_reuse_tree = False,
       m_prune_full_tree = True, m_prune_count_start = 16,
       m_min_simulations = 0, m_max_count = 0, m_max_float_count = 2 ^ digits - 1,
       m_reuse_count = 0 \<rparr>"

section \<open>Search::select_child\<close>



section \<open>Search::prune\<close>

text \<open>
  \<open>Tree::copy_subtree\<close> is declared outside of \<open>Search.h\<close>: its result \<open>copied\<close> and the
  node counts of both trees after it (\<open>tmp_nu_nodes\<close> for \<open>m_tmp_tree\<close>, \<open>tree_nu_nodes\<close>
  for \<open>m_tree\<close>) are arguments. The result is the return value, whether the trees were
  swapped, and the value of the output parameter \<open>new_prune_min_count\<close>, whose value
  before the call is the last argument. The product \<open>tmp_nu_nodes * 100\<close> is one of
  \<open>size_t\<close> and stays far below its range for a tree indexed by \<open>NodeIndex\<close>; the
  divisor is positive, since \<open>m_tree\<close> always holds its root.
\<close>

definition prune :: "Float \<Rightarrow> bool \<Rightarrow> nat \<Rightarrow> nat \<Rightarrow> Float \<Rightarrow> Float \<Rightarrow> bool \<times> bool \<times> Float" where
  "prune Float_max copied tmp_nu_nodes tree_nu_nodes prune_min_count new_prune_min_count =
     (if \<not> copied then (False, False, new_prune_min_count)
      else (let percent = int (tmp_nu_nodes * 100 div tree_nu_nodes) in
            if percent > 50 then
              (if prune_min_count \<ge> (1 / 2) * Float_max
               then (False, True, new_prune_min_count)
               else (True, True, prune_min_count * 2))
            else (True, True, prune_min_count)))"

section \<open>Search::update_rave_values\<close>

text \<open>
  What the search reads from the simulation state \<open>S\<close>: the moves played in the
  simulation, each with its player (\<open>get_move(i)\<close>, \<open>get_nu_moves()\<close>), and \<open>skip_rave\<close>.
\<close>

record State =
  moves :: "(nat \<times> Move) list"
  skip_rave :: "Move \<Rightarrow> bool"

text \<open>
  \<open>first_play\<close> is the array of the thread state, indexed by player and move. A call
  \<open>m_tree.add_rave_value(*it, eval[player], weight)\<close> is recorded as the tuple
  \<open>(i, k, eval[player], weight)\<close>: the position \<open>i\<close> of the node in the simulation, the
  position \<open>k\<close> of the child among its children, the value and the weight.
\<close>

type_synonym first_play = "nat \<Rightarrow> Move \<Rightarrow> nat"

type_synonym rave_update = "nat \<times> nat \<times> Float \<times> Float"

text \<open>The difference of two \<open>unsigned\<close> values.\<close>

definition unsigned_sub :: "nat \<Rightarrow> nat \<Rightarrow> nat" where
  "unsigned_sub a b = (if b \<le> a then a - b else a + (unsigned_int_max + 1) - b)"

text \<open>
  The loop over the players under \<open>m_rave_check_same\<close>. Its counter is declared as
  \<open>i\<close> in the source and hides the parameter \<open>i\<close> of \<open>update_rave_values\<close>: the test
  \<open>first_other >= i\<close> compares with the player.
\<close>

definition other_played_same :: "first_play \<Rightarrow> nat \<Rightarrow> nat \<Rightarrow> Move \<Rightarrow> nat \<Rightarrow> bool" where
  "other_played_same first_play nu_players player m first =
     list_ex (\<lambda>i. i \<noteq> player \<and> first_play i m \<ge> i \<and> first_play i m \<le> first)
       [0..<nu_players]"

fun update_rave_children ::
  "Search \<Rightarrow> nat \<Rightarrow> first_play \<Rightarrow> Float list \<Rightarrow> Float \<Rightarrow> nat \<Rightarrow> nat \<Rightarrow> Node list \<Rightarrow> nat
     \<Rightarrow> rave_update list" where
  "update_rave_children s nu_players first_play eval weight_factor i player [] k = []"
| "update_rave_children s nu_players first_play eval weight_factor i player (c # cs) k =
     (let m = get_move c;
          first = first_play player m;
          rest = update_rave_children s nu_players first_play eval weight_factor i player
                   cs (Suc k)
      in if first = unsigned_int_max then rest
         else if m_rave_check_same s \<and> other_played_same first_play nu_players player m first
         then rest
         else (let weight = (if m_weight_rave_updates s
                             then 2 - real (unsigned_sub first i) * weight_factor
                             else 1)
               in (i, k, eval ! player, weight) # rest))"

text \<open>
  \<open>update_rave_values(thread_state, eval, i, player)\<close>. The source asserts
  \<open>i < nodes.size()\<close>; the result is \<open>None\<close> where the assertion fails. The function is
  called for the position \<open>i\<close> of a move of the simulation, so that \<open>len - i\<close> is positive.
\<close>

definition update_rave_values_node ::
  "Search \<Rightarrow> nat \<Rightarrow> Node list \<Rightarrow> State \<Rightarrow> first_play \<Rightarrow> Float list \<Rightarrow> nat \<Rightarrow> nat
     \<Rightarrow> rave_update list option" where
  "update_rave_values_node s nu_players nodes state first_play eval i player =
     (if \<not> i < length nodes then None
      else (let node = nodes ! i in
            if \<not> has_children node then Some []
            else (let len = length (moves state);
                      weight_factor = 1 / real (unsigned_sub len i)
                  in Some (update_rave_children s nu_players first_play eval weight_factor
                             i player (children node) 0))))"

text \<open>The assignment \<open>first_play[mv.player][mv.move.to_int()] = v\<close> for the move at \<open>i\<close>.\<close>

definition set_first_play :: "State \<Rightarrow> nat \<Rightarrow> nat \<Rightarrow> first_play \<Rightarrow> first_play" where
  "set_first_play state i v first_play =
     (case moves state ! i of (player, mv) \<Rightarrow>
        first_play(player := (first_play player)(mv := v)))"

definition record_first_play :: "State \<Rightarrow> nat \<Rightarrow> first_play \<Rightarrow> first_play" where
  "record_first_play state i first_play =
     (if \<not> skip_rave state (snd (moves state ! i)) then set_first_play state i i first_play
      else first_play)"

text \<open>
  The first loop, \<open>for ( ; i >= nu_nodes; --i)\<close>, returns the counter and the array.
  It is entered with at least one node (\<open>search_loop\<close> puts the root into \<open>nodes\<close>), so
  that the counter never passes below 0.
\<close>

fun playout_first_play :: "State \<Rightarrow> nat \<Rightarrow> nat \<Rightarrow> first_play \<Rightarrow> nat \<times> first_play" where
  "playout_first_play state nu_nodes 0 first_play = (0, first_play)"
| "playout_first_play state nu_nodes (Suc i) first_play =
     (if Suc i \<ge> nu_nodes
      then playout_first_play state nu_nodes i (record_first_play state (Suc i) first_play)
      else (Suc i, first_play))"

text \<open>The second loop, \<open>while (true)\<close> down to \<open>i == 0\<close>.\<close>

fun in_tree_rave ::
  "Search \<Rightarrow> nat \<Rightarrow> Node list \<Rightarrow> State \<Rightarrow> Float list \<Rightarrow> nat \<Rightarrow> first_play
     \<Rightarrow> (rave_update list \<times> first_play) option" where
  "in_tree_rave s nu_players nodes state eval 0 first_play =
     (let fp = record_first_play state 0 first_play in
      case update_rave_values_node s nu_players nodes state fp eval 0
             (fst (moves state ! 0)) of
        None \<Rightarrow> None
      | Some us \<Rightarrow> Some (us, fp))"
| "in_tree_rave s nu_players nodes state eval (Suc i) first_play =
     (let fp = record_first_play state (Suc i) first_play in
      case update_rave_values_node s nu_players nodes state fp eval (Suc i)
             (fst (moves state ! Suc i)) of
        None \<Rightarrow> None
      | Some us \<Rightarrow>
          (case in_tree_rave s nu_players nodes state eval i fp of
             None \<Rightarrow> None
           | Some (us', fp') \<Rightarrow> Some (us @ us', fp')))"

text \<open>The last loop, which resets \<open>first_play\<close>, for the moves from \<open>i\<close> on.\<close>

fun reset_first_play :: "State \<Rightarrow> nat \<Rightarrow> nat \<Rightarrow> first_play \<Rightarrow> first_play" where
  "reset_first_play state i 0 first_play = first_play"
| "reset_first_play state i (Suc n) first_play =
     reset_first_play state (Suc i) n (set_first_play state i unsigned_int_max first_play)"

text \<open>
  \<open>update_rave_values(thread_state, eval)\<close>: the calls of \<open>add_rave_value\<close> in their
  order and the array \<open>first_play\<close> at the end. The result is \<open>None\<close> where \<open>nodes\<close> is
  empty or an assertion of the source fails.
\<close>

definition update_rave_values ::
  "Search \<Rightarrow> nat \<Rightarrow> Node list \<Rightarrow> State \<Rightarrow> first_play \<Rightarrow> Float list
     \<Rightarrow> (rave_update list \<times> first_play) option" where
  "update_rave_values s nu_players nodes state first_play eval =
     (let nu_moves = length (moves state) in
      if nu_moves = 0 then Some ([], first_play)
      else if nodes = [] then None
      else (case playout_first_play state (length nodes) (nu_moves - 1) first_play of
              (i, fp) \<Rightarrow>
                (case in_tree_rave s nu_players nodes state eval i fp of
                   None \<Rightarrow> None
                 | Some (us, fp') \<Rightarrow> Some (us, reset_first_play state 0 nu_moves fp'))))"

section \<open>The operations of the search on the trees and the simulation state\<close>

text \<open>
  The trees, the timer, the reply table and the simulation state of the thread form a
  world \<open>'w\<close>. \<open>Tree\<close>, \<open>IntervalChecker::operator()\<close> and the simulation state \<open>S\<close> are
  declared outside of \<open>Search.h\<close>; the search changes the world through
  \<^item> \<open>get_root\<close>: \<open>m_tree.get_root()\<close>, with its children;
  \<^item> \<open>clear_tmp_tree\<close>: \<open>m_tmp_tree.clear(get_tie_value())\<close>;
  \<^item> \<open>extract_subtree\<close>: \<open>m_tree.extract_subtree(m_tmp_tree, *node, ...)\<close> for the node that
    \<open>find_node\<close> has found;
  \<^item> \<open>clear_root_value\<close>: \<open>m_tmp_tree.clear_root_value(get_tie_value())\<close>;
  \<^item> \<open>swap_trees\<close>: \<open>m_tree.swap(m_tmp_tree)\<close>;
  \<^item> \<open>clear_tree\<close>: \<open>m_tree.clear(get_tie_value())\<close>;
  \<^item> \<open>start_search\<close>: what \<open>search\<close> does between the clearing of the tree and the search
    loops (the timer is reset, \<open>on_start_search\<close> is called, the root values and the
    statistics are cleared, the states are told that a search starts);
  \<^item> \<open>expensive_abort_checker\<close>: the call \<open>expensive_abort_checker()\<close> of \<open>search_loop\<close>, with
    its result;
  \<^item> \<open>play_in_tree\<close>: \<open>start_simulation\<close> and \<open>play_in_tree\<close> of the simulation with the
    given number, with the value of \<open>is_out_of_mem\<close> after it;
  \<^item> \<open>playout_and_update\<close>: the rest of the simulation (playout, evaluation, update of
    the values);
  \<^item> \<open>copy_subtree\<close>: in \<open>prune\<close>, the clearing of \<open>m_tmp_tree\<close> and \<open>m_tree.copy_subtree\<close>
    with the given minimum count; its result, and the numbers of nodes of \<open>m_tmp_tree\<close>
    and of \<open>m_tree\<close> after it.
\<close>

record 'w Search_ops =
  get_root :: "'w \<Rightarrow> Node"
  clear_tmp_tree :: "'w \<Rightarrow> 'w"
  extract_subtree :: "'w \<Rightarrow> 'w"
  clear_root_value :: "'w \<Rightarrow> 'w"
  swap_trees :: "'w \<Rightarrow> 'w"
  clear_tree :: "'w \<Rightarrow> 'w"
  start_search :: "'w \<Rightarrow> 'w"
  expensive_abort_checker :: "'w \<Rightarrow> bool \<times> 'w"
  play_in_tree :: "nat \<Rightarrow> 'w \<Rightarrow> bool \<times> 'w"
  playout_and_update :: "nat \<Rightarrow> 'w \<Rightarrow> 'w"
  copy_subtree :: "Float \<Rightarrow> 'w \<Rightarrow> (bool \<times> nat \<times> nat) \<times> 'w"

section \<open>Search::search: reuse of the tree of the last search\<close>

text \<open>
  The part of \<open>search\<close> before the search loops decides whether the tree of the last
  search is reused. What the virtual functions of the subclass and the functions of
  \<open>Tree\<close> and \<open>TreeUtil\<close> return in it are the fields of \<open>Search_env\<close>:
  \<^item> \<open>e_nu_players\<close>: \<open>get_nu_players()\<close>;
  \<^item> \<open>e_check_followup\<close>, \<open>e_followup_sequence\<close>: the result of \<open>check_followup\<close> and the
    sequence it stores in \<open>m_followup_sequence\<close>;
  \<^item> \<open>e_reuse_param_unchanged\<close>: \<open>get_reuse_param() == get_last_reuse_param()\<close>;
  \<^item> \<open>e_tree_nodes\<close>: \<open>m_tree.get_nu_nodes()\<close> before the extraction;
  \<^item> \<open>e_find_node\<close>: \<open>find_node(m_tree, m_followup_sequence) != 0\<close>;
  \<^item> \<open>e_extract_subtree\<close>: the result of \<open>m_tree.extract_subtree\<close>, false when the
    extraction was aborted;
  \<^item> \<open>e_tmp_tree_nodes\<close>, \<open>e_tmp_tree_root_count\<close>: the number of nodes and the count of
    the root of \<open>m_tmp_tree\<close> after the extraction;
  \<^item> \<open>e_timer\<close>: the time the extraction has taken;
  \<^item> \<open>e_root_val_count i\<close>: \<open>m_root_val[i].get_count()\<close>.
\<close>

record Search_env =
  e_nu_players :: nat
  e_check_followup :: bool
  e_followup_sequence :: "Move list"
  e_reuse_param_unchanged :: bool
  e_tree_nodes :: nat
  e_find_node :: bool
  e_extract_subtree :: bool
  e_tmp_tree_nodes :: nat
  e_tmp_tree_root_count :: Float
  e_timer :: real
  e_root_val_count :: "nat \<Rightarrow> Float"

text \<open>
  What this part of \<open>search\<close> has done when it is left:
  \<^item> \<open>r_returned_false\<close>: \<open>search\<close> has returned false at \<open>if (aborted && ! always_search)\<close>;
  \<^item> \<open>r_init_val_from_root_val\<close>: the players \<open>i\<close> with \<open>m_init_val[i] = m_root_val[i]\<close>
    (the other players keep the tie value);
  \<^item> \<open>r_reuse_count\<close>: \<open>m_reuse_count\<close>;
  \<^item> \<open>r_extracted\<close>: \<open>extract_subtree\<close> was called;
  \<^item> \<open>r_swapped\<close>: \<open>m_tree.swap(m_tmp_tree)\<close> was called, the extracted subtree is the
    tree of this search;
  \<^item> \<open>r_clear_tree\<close>: the local \<open>clear_tree\<close>, on which \<open>m_tree.clear\<close> is called next;
  \<^item> \<open>r_max_time\<close>: the local \<open>max_time\<close>.
\<close>

record Reuse =
  r_returned_false :: bool
  r_init_val_from_root_val :: "nat list"
  r_reuse_count :: Float
  r_extracted :: bool
  r_swapped :: bool
  r_clear_tree :: bool
  r_max_time :: real

text \<open>The lines of \<open>search\<close> up to the test of \<open>clear_tree\<close>, with the world they leave.\<close>

definition search_reuse ::
  "'w Search_ops \<Rightarrow> real \<Rightarrow> Search \<Rightarrow> Search_env \<Rightarrow> Float \<Rightarrow> real \<Rightarrow> bool \<Rightarrow> 'w
     \<Rightarrow> Reuse \<times> 'w" where
  "search_reuse ops double_max s e max_count max_time0 always_search w =
     (let max_time = (if max_count > 0 then double_max else max_time0);
          nu_players = e_nu_players e;
          is_same = (e_check_followup e \<and> e_followup_sequence e = []);
          is_followup = (e_check_followup e \<and> \<not> is_same);
          init = (if is_same \<or> (is_followup \<and> length (e_followup_sequence e) \<le> nu_players)
                  then filter (\<lambda>i. e_root_val_count e i > 0) [0..<nu_players]
                  else []);
          r = \<lparr> r_returned_false = False, r_init_val_from_root_val = init,
                r_reuse_count = 0, r_extracted = False, r_swapped = False,
                r_clear_tree = True, r_max_time = max_time \<rparr>
      in if ((m_reuse_subtree s \<and> is_followup) \<or> (m_reuse_tree s \<and> is_same))
            \<and> e_reuse_param_unchanged e
         then
           (if e_followup_sequence e = [] then (r, w)
            else (let w1 = clear_tmp_tree ops w in
                  if e_find_node e then
                    (let w2 = extract_subtree ops w1;
                         aborted = (\<not> e_extract_subtree e);
                         r1 = r\<lparr> r_extracted := True,
                                 r_reuse_count := (if \<not> is_same then e_tmp_tree_root_count e
                                                   else r_reuse_count r) \<rparr>;
                         w3 = (if \<not> is_same then clear_root_value ops w2 else w2)
                     in if aborted \<and> \<not> always_search
                        then (r1\<lparr> r_returned_false := True \<rparr>, w3)
                        else if e_tree_nodes e > 1 \<and> e_tmp_tree_nodes e > 1 then
                          (r1\<lparr> r_swapped := True, r_clear_tree := False,
                               r_max_time := (let t = max_time - e_timer e in
                                              if t < 0 then 0 else t) \<rparr>,
                           swap_trees ops w3)
                        else (r1, w3))
                  else (r, w1)))
         else (r, w))"

section \<open>Search::search_loop\<close>

definition check_abort :: "Float_ops \<Rightarrow> Search \<Rightarrow> Float \<Rightarrow> bool" where
  "check_abort fops s root_count =
     (let count = f_add fops root_count (m_reuse_count s) in
      if count \<ge> m_max_float_count s then True
      else if m_max_count s > 0 \<and> count \<ge> m_max_count s then True
      else False)"

text \<open>
  How a run of the loop ends: by \<open>break\<close>, by \<open>return\<close> when the tree is full, or it is
  still running after the given number of passes.
\<close>

datatype loop_exit = Break | Out_of_mem | Running

record 'w Loop_state =
  m_nu_simulations :: nat
  world :: 'w

text \<open>
  The condition of the \<open>if\<close> at the head of the loop body, evaluated from left to right
  as \<open>&&\<close> and \<open>||\<close> do; \<open>nu_simulations\<close> is the value that \<open>fetch_add\<close> has returned, which
  the comparison with \<open>m_min_simulations\<close> converts to \<open>Float\<close>.
\<close>

definition abort_condition ::
  "Float_ops \<Rightarrow> 'w Search_ops \<Rightarrow> Search \<Rightarrow> nat \<Rightarrow> 'w \<Rightarrow> bool \<times> 'w" where
  "abort_condition fops ops s nu_simulations w =
     (let root_count = get_count (get_root ops w) in
      if root_count > 0 \<and> f_of_nat fops nu_simulations > m_min_simulations s then
        (if check_abort fops s root_count then (True, w)
         else expensive_abort_checker ops w)
      else (False, w))"

text \<open>The loop of one thread; \<open>fuel\<close> bounds the number of its passes.\<close>

fun search_loop ::
  "Float_ops \<Rightarrow> 'w Search_ops \<Rightarrow> Search \<Rightarrow> nat \<Rightarrow> 'w Loop_state
     \<Rightarrow> loop_exit \<times> 'w Loop_state" where
  "search_loop fops ops s 0 st = (Running, st)"
| "search_loop fops ops s (Suc fuel) st =
     (let nu_simulations = m_nu_simulations st;
          st1 = st\<lparr> m_nu_simulations := Suc nu_simulations \<rparr>
      in case abort_condition fops ops s nu_simulations (world st1) of
           (abort, w) \<Rightarrow>
             if abort then (Break, st1\<lparr> world := w \<rparr>)
             else (case play_in_tree ops nu_simulations w of
                     (is_out_of_mem, w') \<Rightarrow>
                       if is_out_of_mem then (Out_of_mem, st1\<lparr> world := w' \<rparr>)
                       else search_loop fops ops s fuel
                              (st1\<lparr> world := playout_and_update ops nu_simulations w' \<rparr>)))"

section \<open>Search::search: the search loops and the selection of the move\<close>

text \<open>
  The loop of \<open>search\<close> around \<open>search_loop\<close>, for a search with one thread (the thread
  that calls \<open>search\<close> runs \<open>search_loop\<close> itself; the threads that a search with
  \<open>m_nu_threads > 1\<close> starts beside it are not part of this model). \<open>rounds\<close> bounds the
  number of calls of \<open>search_loop\<close> and \<open>fuel\<close> the passes of each. After a run that has
  ended on a full tree the tree is pruned with \<open>prune\<close>, whose last two arguments are
  the same variable \<open>prune_min_count\<close> in the source.
\<close>

fun search_rounds ::
  "Float \<Rightarrow> Float_ops \<Rightarrow> 'w Search_ops \<Rightarrow> Search \<Rightarrow> nat \<Rightarrow> nat \<Rightarrow> Float \<Rightarrow> 'w Loop_state
     \<Rightarrow> loop_exit \<times> 'w Loop_state" where
  "search_rounds Float_max fops ops s fuel 0 prune_min_count st = (Running, st)"
| "search_rounds Float_max fops ops s fuel (Suc rounds) prune_min_count st =
     (case search_loop fops ops s fuel st of
        (ex, st1) \<Rightarrow>
          if ex \<noteq> Out_of_mem then (ex, st1)
          else if \<not> m_prune_full_tree s then (Out_of_mem, st1)
          else (case copy_subtree ops prune_min_count (world st1) of
                  ((copied, tmp_nu_nodes, tree_nu_nodes), w) \<Rightarrow>
                    (case prune Float_max copied tmp_nu_nodes tree_nu_nodes
                            prune_min_count prune_min_count of
                       (ok, swapped, new_prune_min_count) \<Rightarrow>
                         (let st2 = st1\<lparr> world := (if swapped then swap_trees ops w
                                                      else w) \<rparr>
                          in if \<not> ok then (Out_of_mem, st2)
                             else search_rounds Float_max fops ops s fuel rounds
                                    new_prune_min_count st2))))"

text \<open>
  What a call of \<open>search\<close> gives: its result and the value of the output parameter \<open>mv\<close>,
  or nothing yet when the bound on the passes is reached.
\<close>

datatype search_result = Returned bool Move | Still_searching

text \<open>
  The part of \<open>search\<close> from the test of \<open>clear_tree\<close> on: the tree is cleared if
  \<open>clear_tree\<close> is set, the members for the limits are assigned, \<open>m_nu_simulations\<close> is set
  to 0, the search loops are run and the move is selected.
\<close>

definition search_main ::
  "Float \<Rightarrow> Float_ops \<Rightarrow> 'w Search_ops \<Rightarrow> Search \<Rightarrow> bool \<Rightarrow> 'w \<Rightarrow> Move \<Rightarrow> Float \<Rightarrow> Float
     \<Rightarrow> nat \<Rightarrow> search_result \<times> 'w" where
  "search_main Float_max fops ops s clear w mv max_count min_simulations fuel =
     (let w1 = (if clear then clear_tree ops w else w);
          w2 = start_search ops w1;
          s' = s\<lparr> m_max_count := max_count, m_min_simulations := min_simulations \<rparr>;
          st = \<lparr> m_nu_simulations = 0, world = w2 \<rparr>
      in case search_rounds Float_max fops ops s' fuel fuel (m_prune_count_start s') st of
           (ex, st') \<Rightarrow>
             if ex = Running then (Still_searching, world st')
             else (case select_move Float_max (get_root ops (world st')) None mv of
                     (result, mv') \<Rightarrow> (Returned result mv', world st')))"

definition search ::
  "Float \<Rightarrow> real \<Rightarrow> Float_ops \<Rightarrow> 'w Search_ops \<Rightarrow> Search \<Rightarrow> Search_env \<Rightarrow> 'w \<Rightarrow> Move
     \<Rightarrow> Float \<Rightarrow> Float \<Rightarrow> real \<Rightarrow> bool \<Rightarrow> nat \<Rightarrow> search_result \<times> 'w" where
  "search Float_max double_max fops ops s e w mv max_count min_simulations max_time
     always_search fuel =
     (case search_reuse ops double_max s e max_count max_time always_search w of
        (r, w1) \<Rightarrow>
          if r_returned_false r then (Returned False mv, w1)
          else search_main Float_max fops ops (s\<lparr> m_reuse_count := r_reuse_count r \<rparr>)
                 (r_clear_tree r) w1 mv max_count min_simulations fuel)"

section \<open>The operations with a log of their calls\<close>

text \<open>
  One event for each call of an operation on the world; a call of the expensive
  checker is logged with the count of the root at the call, a call of \<open>play_in_tree\<close>
  with the number of the simulation and the value of \<open>is_out_of_mem\<close> after it.
\<close>

datatype event =
  Clear_tmp_tree | Extract_subtree | Clear_root_value | Swap_trees | Clear_tree
| Start_search | Expensive_check Float | In_tree nat bool | Playout nat
| Copy_subtree Float

text \<open>
  \<open>instrument ops\<close> are the operations \<open>ops\<close> on a world with a log: each does what it
  does in \<open>ops\<close> and puts its event at the end of the log.
\<close>

definition instrument :: "'w Search_ops \<Rightarrow> ('w \<times> event list) Search_ops" where
  "instrument ops =
     \<lparr> get_root = (\<lambda>(w, l). get_root ops w),
       clear_tmp_tree = (\<lambda>(w, l). (clear_tmp_tree ops w, l @ [Clear_tmp_tree])),
       extract_subtree = (\<lambda>(w, l). (extract_subtree ops w, l @ [Extract_subtree])),
       clear_root_value = (\<lambda>(w, l). (clear_root_value ops w, l @ [Clear_root_value])),
       swap_trees = (\<lambda>(w, l). (swap_trees ops w, l @ [Swap_trees])),
       clear_tree = (\<lambda>(w, l). (clear_tree ops w, l @ [Clear_tree])),
       start_search = (\<lambda>(w, l). (start_search ops w, l @ [Start_search])),
       expensive_abort_checker =
         (\<lambda>(w, l). case expensive_abort_checker ops w of
                      (r, w') \<Rightarrow>
                        (r, (w', l @ [Expensive_check (get_count (get_root ops w))]))),
       play_in_tree =
         (\<lambda>n (w, l). case play_in_tree ops n w of
                        (is_out_of_mem, w') \<Rightarrow>
                          (is_out_of_mem, (w', l @ [In_tree n is_out_of_mem]))),
       playout_and_update = (\<lambda>n (w, l). (playout_and_update ops n w, l @ [Playout n])),
       copy_subtree =
         (\<lambda>c (w, l). case copy_subtree ops c w of
                        (res, w') \<Rightarrow> (res, (w', l @ [Copy_subtree c]))) \<rparr>"




section \<open>A world for the examples\<close>

text \<open>
  A world that is the number of the simulations performed since the tree was
  cleared. The root has that number as its count and two children, of which the first
  is visited by every simulation. The tree is never full and the expensive checker
  never asks for the end of the search.
\<close>

definition counting_ops :: "nat Search_ops" where
  "counting_ops =
     \<lparr> get_root = (\<lambda>w. Node 0 (real w) (1/2) 0 0
                          [Node 8 (real w) (1/2) 0 0 [], Node 9 0 (1/2) 0 0 []]),
       clear_tmp_tree = (\<lambda>w. w),
       extract_subtree = (\<lambda>w. w),
       clear_root_value = (\<lambda>w. w),
       swap_trees = (\<lambda>w. 0),
       clear_tree = (\<lambda>w. 0),
       start_search = (\<lambda>w. w),
       expensive_abort_checker = (\<lambda>w. (False, w)),
       play_in_tree = (\<lambda>n w. (False, w)),
       playout_and_update = (\<lambda>n w. Suc w),
       copy_subtree = (\<lambda>c w. ((True, 1, 1), w)) \<rparr>"

section \<open>Invariants of the selection loops\<close>

text \<open>
  The child at \<open>r\<close> is at least as good as the child at \<open>j\<close> for the final selection:
  a higher count, or the same count and a higher value, or both the same and \<open>r\<close> not
  after \<open>j\<close>.
\<close>

definition better_or_same :: "Node list \<Rightarrow> nat \<Rightarrow> nat \<Rightarrow> bool" where
  "better_or_same cs r j =
     (get_count (cs ! j) < get_count (cs ! r)
      \<or> (get_count (cs ! j) = get_count (cs ! r)
          \<and> (get_value (cs ! j) < get_value (cs ! r)
              \<or> (get_value (cs ! j) = get_value (cs ! r) \<and> r \<le> j))))"

text \<open>
  The state of the loop of \<open>select_child_final\<close> after the children \<open>pre\<close>, none of
  which has a negative count.
\<close>

definition select_child_final_inv ::
  "Move list option \<Rightarrow> Node list \<Rightarrow> nat option \<times> Float \<times> Float \<Rightarrow> bool" where
  "select_child_final_inv ex pre acc =
     (case acc of (result, max_count, max_count_value) \<Rightarrow>
        (case result of
           None \<Rightarrow> max_count = - 1 \<and> (\<forall>j < length pre. is_excluded ex (get_move (pre ! j)))
         | Some r \<Rightarrow>
             r < length pre \<and> \<not> is_excluded ex (get_move (pre ! r))
             \<and> max_count = get_count (pre ! r) \<and> max_count_value = get_value (pre ! r)
             \<and> (\<forall>j < length pre. \<not> is_excluded ex (get_move (pre ! j)) \<longrightarrow>
                    better_or_same pre r j)))"

definition select_child_final_sound ::
  "Move list option \<Rightarrow> Node list \<Rightarrow> nat option \<times> Float \<times> Float \<Rightarrow> bool" where
  "select_child_final_sound ex pre acc =
     (case fst acc of None \<Rightarrow> True
      | Some r \<Rightarrow> r < length pre \<and> \<not> is_excluded ex (get_move (pre ! r)))"


section \<open>Invariant of the search loop\<close>




section \<open>Properties of get_max_nodes\<close>

text \<open>
  C9, as the claim states it, fails: with 32 bytes per node and a 32-bit \<open>NodeIndex\<close> a
  memory budget of \<open>2^40\<close> bytes gives \<open>2^32 - 1\<close> nodes per tree, not \<open>2^34\<close>.
\<close>

theorem get_max_nodes_not_always_quotient:
  "get_max_nodes 32 4294967295 (2 ^ 40) = 4294967295
   \<and> (2 ^ 40) div (2 * 32) = (17179869184 :: nat)
   \<and> get_max_nodes 32 4294967295 (2 ^ 40) \<noteq> (2 ^ 40) div (2 * 32)"
  by (simp add: get_max_nodes_def)

text \<open>
  C9 (amended): for every memory budget \<open>get_max_nodes\<close> is the memory divided by twice
  the node size, capped at the largest value of \<open>NodeIndex\<close>; each of the two trees is
  constructed with that number of nodes for the memory given to the constructor, or
  for 256000000 bytes when 0 is given.
\<close>

theorem get_max_nodes_capped_quotient:
  "get_max_nodes sizeof_Node NodeIndex_max memory =
     min (memory div (2 * sizeof_Node)) NodeIndex_max
   \<and> Search_max_nodes sizeof_Node NodeIndex_max memory =
     min ((if memory = 0 then 256000000 else memory) div (2 * sizeof_Node)) NodeIndex_max"
  by (simp add: Search_max_nodes_def Search_tree_memory_def get_max_nodes_def Let_def
        div_mult2_eq mult.commute)

section \<open>The result of the interval checker latches\<close>

lemma check_expensive_when_result:
  "m_result c \<Longrightarrow> check_expensive ts f c = (True, c)"
  by (simp add: check_expensive_def)

lemma set_deterministic_keeps_result:
  "m_result (set_deterministic n c) = m_result c"
  "nu_function_calls (set_deterministic n c) = nu_function_calls c"
  "nu_time_calls (set_deterministic n c) = nu_time_calls c"
  by (simp_all add: set_deterministic_def)

lemma check_expensive_result_is_m_result:
  "check_expensive ts f c = (r, c') \<Longrightarrow> r = m_result c'"
  by (auto simp: check_expensive_def Let_def call_function_def call_time_source_def split: if_splits prod.splits)

lemma check_expensive_function_true:
  assumes "check_expensive ts f c = (r, c')"
      and "nu_function_calls c' = Suc (nu_function_calls c)"
      and "f (nu_function_calls c)"
  shows "m_result c'"
  using assms
  by (auto simp: check_expensive_def Let_def call_function_def call_time_source_def split: if_splits prod.splits)

lemma run_ops_latched:
  "m_result c \<Longrightarrow>
   fst (run_ops ts f ops c) = replicate (length (filter (\<lambda>x. x = CheckExpensive) ops)) True
   \<and> m_result (snd (run_ops ts f ops c))
   \<and> nu_function_calls (snd (run_ops ts f ops c)) = nu_function_calls c
   \<and> nu_time_calls (snd (run_ops ts f ops c)) = nu_time_calls c"
proof (induction ops arbitrary: c)
  case Nil
  then show ?case by simp
next
  case (Cons x ops)
  show ?case
  proof (cases x)
    case CheckExpensive
    with Cons.prems Cons.IH [of c] show ?thesis
      by (simp add: check_expensive_when_result case_prod_beta)
  next
    case (SetDeterministic n)
    with Cons.prems Cons.IH [of "set_deterministic n c"] show ?thesis
      by (simp add: set_deterministic_keeps_result)
  qed
qed

text \<open>
  C10: when a call of \<open>check_expensive\<close> has called the wrapped predicate and the
  predicate has returned true, that call returns true, and so does every later call of
  \<open>check_expensive\<close>, whatever calls of \<open>set_deterministic\<close> lie between them; neither the
  predicate nor the time source is called again.
\<close>

theorem check_expensive_latches:
  assumes "check_expensive ts f c = (r, c')"
      and "nu_function_calls c' = Suc (nu_function_calls c)"
      and "f (nu_function_calls c)"
  shows "r \<and> fst (run_ops ts f ops c') = replicate (length (filter (\<lambda>x. x = CheckExpensive) ops)) True
   \<and> nu_function_calls (snd (run_ops ts f ops c')) = nu_function_calls c'
   \<and> nu_time_calls (snd (run_ops ts f ops c')) = nu_time_calls c'"
proof -
  have latched: "m_result c'"
    using assms by (rule check_expensive_function_true)
  moreover have "r = m_result c'"
    using assms(1) by (rule check_expensive_result_is_m_result)
  ultimately show ?thesis
    using run_ops_latched [OF latched, of ts f ops] by simp
qed

theorem check_expensive_latches_witness:
  "fst (check_expensive (\<lambda>k. 0) (\<lambda>k. k = 0) (set_deterministic 5 (IntervalChecker_init (1/10) 0)))
   \<and> fst (run_ops (\<lambda>k. 0) (\<lambda>k. k = 0) [CheckExpensive, SetDeterministic 3, CheckExpensive]
        (snd (check_expensive (\<lambda>k. 0) (\<lambda>k. k = 0) (set_deterministic 5 (IntervalChecker_init (1/10) 0)))))
      = [True, True]
   \<and> nu_function_calls (snd (run_ops (\<lambda>k. 0) (\<lambda>k. k = 0) [CheckExpensive, SetDeterministic 3, CheckExpensive]
        (snd (check_expensive (\<lambda>k. 0) (\<lambda>k. k = 0) (set_deterministic 5 (IntervalChecker_init (1/10) 0)))))) = 1"
proof -
  let ?c = "set_deterministic 5 (IntervalChecker_init (1/10) 0)"
  let ?f = "\<lambda>k::nat. k = 0"
  let ?ts = "\<lambda>k::nat. 0::real"
  have run: "check_expensive ?ts ?f ?c = (fst (check_expensive ?ts ?f ?c), snd (check_expensive ?ts ?f ?c))"
    by simp
  have invoked: "nu_function_calls (snd (check_expensive ?ts ?f ?c)) = Suc (nu_function_calls ?c)"
    by (simp add: check_expensive_def set_deterministic_def IntervalChecker_init_def call_function_def)
  have true: "?f (nu_function_calls ?c)"
    by (simp add: set_deterministic_def IntervalChecker_init_def)
  have calls: "nu_function_calls (snd (check_expensive ?ts ?f ?c)) = 1"
    by (simp add: check_expensive_def set_deterministic_def IntervalChecker_init_def call_function_def)
  show ?thesis
    using check_expensive_latches [OF run invoked true, of "[CheckExpensive, SetDeterministic 3, CheckExpensive]"] calls
    by simp
qed

section \<open>The final selection\<close>

lemma better_or_same_append:
  "r < length pre \<Longrightarrow> j < length pre \<Longrightarrow> better_or_same (pre @ [c]) r j = better_or_same pre r j"
  by (simp add: better_or_same_def nth_append)

lemma select_child_final_step_inv:
  assumes "select_child_final_inv ex pre acc" and "0 \<le> get_count c"
  shows "select_child_final_inv ex (pre @ [c]) (select_child_final_step ex (length pre) c acc)"
proof -
  obtain result mc mv where acc: "acc = (result, mc, mv)"
    by (cases acc) auto
  show ?thesis
  proof (cases result)
    case None
    with assms acc show ?thesis
      by (auto simp: select_child_final_inv_def select_child_final_step_def Let_def
            nth_append better_or_same_def less_Suc_eq)
  next
    case (Some r)
    with assms acc have r: "r < length pre" "\<not> is_excluded ex (get_move (pre ! r))"
      "mc = get_count (pre ! r)" "mv = get_value (pre ! r)"
      and old: "\<And>j. j < length pre \<Longrightarrow> \<not> is_excluded ex (get_move (pre ! j)) \<Longrightarrow> better_or_same pre r j"
      by (auto simp: select_child_final_inv_def)
    show ?thesis
    proof (cases "(get_count c > mc \<or> (get_count c = mc \<and> get_value c > mv)) \<and> \<not> is_excluded ex (get_move c)")
      case True
      then have step: "select_child_final_step ex (length pre) c acc = (Some (length pre), get_count c, get_value c)"
        using acc by (auto simp: select_child_final_step_def Let_def)
      have "better_or_same (pre @ [c]) (length pre) j"
        if "j < Suc (length pre)" "\<not> is_excluded ex (get_move ((pre @ [c]) ! j))" for j
      proof (cases "j = length pre")
        case True
        then show ?thesis by (simp add: better_or_same_def)
      next
        case False
        with that have j: "j < length pre" "\<not> is_excluded ex (get_move (pre ! j))"
          by (auto simp: nth_append)
        from old [OF j] r True j show ?thesis
          by (auto simp: better_or_same_def nth_append)
      qed
      then show ?thesis
        unfolding step by (simp add: select_child_final_inv_def True)
    next
      case False
      then have step: "select_child_final_step ex (length pre) c acc = acc"
        using acc by (auto simp: select_child_final_step_def Let_def)
      have "better_or_same (pre @ [c]) r j"
        if "j < Suc (length pre)" "\<not> is_excluded ex (get_move ((pre @ [c]) ! j))" for j
      proof (cases "j = length pre")
        case True
        with that False r show ?thesis
          by (auto simp: better_or_same_def nth_append)
      next
        case False
        with that have j: "j < length pre" "\<not> is_excluded ex (get_move (pre ! j))"
          by (auto simp: nth_append)
        from old [OF j] r j show ?thesis
          by (simp add: better_or_same_append)
      qed
      then show ?thesis
        unfolding step using acc Some r by (simp add: select_child_final_inv_def nth_append)
    qed
  qed
qed

lemma select_child_final_loop_inv:
  "select_child_final_inv ex pre acc \<Longrightarrow> \<forall>c \<in> set cs. 0 \<le> get_count c \<Longrightarrow>
   select_child_final_inv ex (pre @ cs) (select_child_final_loop ex cs (length pre) acc)"
proof (induction cs arbitrary: pre acc)
  case Nil
  then show ?case by simp
next
  case (Cons c cs)
  from Cons.prems have "select_child_final_inv ex (pre @ [c]) (select_child_final_step ex (length pre) c acc)"
    by (simp add: select_child_final_step_inv)
  from Cons.IH [OF this] Cons.prems(2) show ?case by simp
qed

lemma select_child_final_step_sound:
  "select_child_final_sound ex pre acc \<Longrightarrow>
   select_child_final_sound ex (pre @ [c]) (select_child_final_step ex (length pre) c acc)"
  by (cases acc)
     (auto simp: select_child_final_sound_def select_child_final_step_def Let_def nth_append
           split: option.splits)

lemma select_child_final_loop_sound:
  "select_child_final_sound ex pre acc \<Longrightarrow>
   select_child_final_sound ex (pre @ cs) (select_child_final_loop ex cs (length pre) acc)"
proof (induction cs arbitrary: pre acc)
  case Nil
  then show ?case by simp
next
  case (Cons c cs)
  from Cons.IH [OF select_child_final_step_sound [OF Cons.prems, of c]] show ?case by simp
qed

text \<open>
  C4: \<open>select_child_final\<close> never returns a child whose move is in the exclude list.
  For a node whose children have non-negative counts and of which one at least is not
  excluded, it returns a child that is not excluded and has the highest count of those;
  of the children with that count it has the highest value, and of the children with
  that count and value it is the first.
\<close>

theorem select_child_final_best:
  "(\<forall>r. select_child_final Float_max node ex = Some r \<longrightarrow>
        r < length (children node) \<and> \<not> is_excluded ex (get_move (children node ! r)))
   \<and> ((\<forall>c \<in> set (children node). 0 \<le> get_count c)
        \<and> (\<exists>c \<in> set (children node). \<not> is_excluded ex (get_move c)) \<longrightarrow>
       (\<exists>r. select_child_final Float_max node ex = Some r
          \<and> (\<forall>j < length (children node).
                \<not> is_excluded ex (get_move (children node ! j)) \<longrightarrow>
                get_count (children node ! j) \<le> get_count (children node ! r)
                \<and> (get_count (children node ! j) = get_count (children node ! r) \<longrightarrow>
                     get_value (children node ! j) \<le> get_value (children node ! r)
                     \<and> (get_value (children node ! j) = get_value (children node ! r) \<longrightarrow>
                          r \<le> j)))))"
proof (intro conjI allI impI)
  fix r
  assume sel: "select_child_final Float_max node ex = Some r"
  have "select_child_final_sound ex ([] @ children node)
          (select_child_final_loop ex (children node) (length ([] :: Node list)) (None, - 1, - Float_max))"
    by (rule select_child_final_loop_sound) (simp add: select_child_final_sound_def)
  with sel show "r < length (children node)" and "\<not> is_excluded ex (get_move (children node ! r))"
    by (simp_all add: select_child_final_sound_def select_child_final_def)
next
  assume hyp: "(\<forall>c \<in> set (children node). 0 \<le> get_count c)
        \<and> (\<exists>c \<in> set (children node). \<not> is_excluded ex (get_move c))"
  let ?cs = "children node"
  let ?acc = "select_child_final_loop ex ?cs 0 (None, - 1, - Float_max)"
  have "select_child_final_inv ex ([] @ ?cs)
          (select_child_final_loop ex ?cs (length ([] :: Node list)) (None, - 1, - Float_max))"
    using hyp by (intro select_child_final_loop_inv) (simp_all add: select_child_final_inv_def)
  then have inv: "select_child_final_inv ex ?cs ?acc"
    by simp
  from hyp obtain k where k: "k < length ?cs" "\<not> is_excluded ex (get_move (?cs ! k))"
    by (auto simp: in_set_conv_nth)
  obtain result mc mv where acc: "?acc = (result, mc, mv)"
    by (cases ?acc) auto
  from inv acc k obtain r where r: "result = Some r"
    by (cases result) (auto simp: select_child_final_inv_def)
  from inv acc r have best:
    "\<And>j. j < length ?cs \<Longrightarrow> \<not> is_excluded ex (get_move (?cs ! j)) \<Longrightarrow> better_or_same ?cs r j"
    by (simp add: select_child_final_inv_def)
  have "select_child_final Float_max node ex = Some r"
    using acc r by (simp add: select_child_final_def)
  moreover have "\<forall>j < length ?cs. \<not> is_excluded ex (get_move (?cs ! j)) \<longrightarrow>
                get_count (?cs ! j) \<le> get_count (?cs ! r)
                \<and> (get_count (?cs ! j) = get_count (?cs ! r) \<longrightarrow>
                     get_value (?cs ! j) \<le> get_value (?cs ! r)
                     \<and> (get_value (?cs ! j) = get_value (?cs ! r) \<longrightarrow> r \<le> j))"
    using best by (fastforce simp: better_or_same_def)
  ultimately show "\<exists>r. select_child_final Float_max node ex = Some r
          \<and> (\<forall>j < length ?cs.
                \<not> is_excluded ex (get_move (?cs ! j)) \<longrightarrow>
                get_count (?cs ! j) \<le> get_count (?cs ! r)
                \<and> (get_count (?cs ! j) = get_count (?cs ! r) \<longrightarrow>
                     get_value (?cs ! j) \<le> get_value (?cs ! r)
                     \<and> (get_value (?cs ! j) = get_value (?cs ! r) \<longrightarrow>
                          r \<le> j)))"
    by blast
qed

theorem select_child_final_best_witness:
  "select_child_final FLT_MAX
     (Node 0 9 (1/2) 0 0
        [Node 1 5 (9/10) 0 0 [], Node 2 3 (2/5) 0 0 [],
         Node 3 3 (3/5) 0 0 [], Node 4 3 (3/5) 0 0 []])
     (Some [1]) = Some 2"
  using select_child_final_best [of FLT_MAX
     "Node 0 9 (1/2) 0 0
        [Node 1 5 (9/10) 0 0 [], Node 2 3 (2/5) 0 0 [],
         Node 3 3 (3/5) 0 0 [], Node 4 3 (3/5) 0 0 []]" "Some [1]"]
  by (simp add: select_child_final_def select_child_final_step_def is_excluded_def
        FLT_MAX_def)

section \<open>The cannot-change test\<close>

text \<open>
  C1: the root has a child with count 10 followed by a child with count 8, its own count
  is 18 and 5 simulations remain. The loop of \<open>check_move_cannot_change\<close> assigns
  \<open>second_max_count\<close> only when it finds a new maximum, so that the count 8 is never
  recorded: the function returns true (\<open>10 > 0 + 5\<close>) and the final selection is the
  first child. When the 5 remaining simulations all visit the second child, its count is
  13 and the final selection is the second child.
\<close>

theorem check_move_cannot_change_second_max_missed:
  "check_move_cannot_change
     (Node 0 18 (1/2) 0 0 [Node 1 10 (1/2) 0 0 [], Node 2 8 (1/2) 0 0 []]) 18 5
   \<and> select_child_final FLT_MAX
       (Node 0 18 (1/2) 0 0 [Node 1 10 (1/2) 0 0 [], Node 2 8 (1/2) 0 0 []]) None = Some 0
   \<and> select_child_final FLT_MAX
       (Node 0 23 (1/2) 0 0 [Node 1 10 (1/2) 0 0 [], Node 2 13 (1/2) 0 0 []]) None = Some 1"
  by (simp add: check_move_cannot_change_def select_child_final_def
        select_child_final_step_def is_excluded_def FLT_MAX_def)

section \<open>RAVE updates under rave_check_same\<close>

lemma unsigned_int_max_small:
  "n \<le> 1000 \<Longrightarrow> (n = unsigned_int_max) = False"
  "n \<le> 1000 \<Longrightarrow> (unsigned_int_max = n) = False"
  "n \<le> 1000 \<Longrightarrow> (unsigned_int_max \<le> n) = False"
  "n \<le> 1000 \<Longrightarrow> (n \<le> unsigned_int_max) = True"
  by (simp_all add: unsigned_int_max_def)

text \<open>
  C2: three players; player 0 plays move 3, then player 2 plays move 7, then player 0
  plays move 7. The simulation has visited the root, whose children are the moves 3 and
  7, and the child of move 3. At the root (\<open>i = 0\<close>, player 0) the first play of move 7 by
  player 0 is at 2 and the first play of move 7 by player 2 is at 1, between 0 and 2. The
  inner loop compares \<open>first_other >= i\<close> with its own counter, the player 2, and \<open>1 >= 2\<close>
  fails: the RAVE value of the child of move 7 is updated, with weight \<open>2 - 2/3\<close>. When it
  is player 1 who plays move 7 at 1, \<open>1 >= 1\<close> holds and the update is skipped.
\<close>

theorem update_rave_values_other_player_first:
  "map_option fst
     (update_rave_values ((Search_init 24)\<lparr> m_rave := True, m_rave_check_same := True \<rparr>) 3
        [Node 0 10 (1/2) 0 0 [Node 3 5 (1/2) 0 0 [], Node 7 5 (1/2) 0 0 []],
         Node 3 5 (1/2) 0 0 []]
        \<lparr> moves = [(0, 3), (2, 7), (0, 7)], skip_rave = (\<lambda>m. False) \<rparr>
        (\<lambda>player m. unsigned_int_max) [1, 0, 0])
     = Some [(0, 0, 1, 2), (0, 1, 1, 4 / 3)]
   \<and> map_option fst
     (update_rave_values ((Search_init 24)\<lparr> m_rave := True, m_rave_check_same := True \<rparr>) 3
        [Node 0 10 (1/2) 0 0 [Node 3 5 (1/2) 0 0 [], Node 7 5 (1/2) 0 0 []],
         Node 3 5 (1/2) 0 0 []]
        \<lparr> moves = [(0, 3), (1, 7), (0, 7)], skip_rave = (\<lambda>m. False) \<rparr>
        (\<lambda>player m. unsigned_int_max) [1, 0, 0])
     = Some [(0, 0, 1, 2)]"
  by (simp add: update_rave_values_def Search_init_def record_first_play_def
        set_first_play_def update_rave_values_node_def has_children_def
        other_played_same_def unsigned_sub_def unsigned_int_max_small
        numeral_2_eq_2 numeral_3_eq_3)

section \<open>The operations with a log, and the world of the examples\<close>

lemma instrument_simps:
  "get_root (instrument ops) (w, l) = get_root ops w"
  "clear_tmp_tree (instrument ops) (w, l) = (clear_tmp_tree ops w, l @ [Clear_tmp_tree])"
  "extract_subtree (instrument ops) (w, l) = (extract_subtree ops w, l @ [Extract_subtree])"
  "clear_root_value (instrument ops) (w, l) = (clear_root_value ops w, l @ [Clear_root_value])"
  "swap_trees (instrument ops) (w, l) = (swap_trees ops w, l @ [Swap_trees])"
  "clear_tree (instrument ops) (w, l) = (clear_tree ops w, l @ [Clear_tree])"
  "start_search (instrument ops) (w, l) = (start_search ops w, l @ [Start_search])"
  "expensive_abort_checker (instrument ops) (w, l) =
     (fst (expensive_abort_checker ops w),
      snd (expensive_abort_checker ops w), l @ [Expensive_check (get_count (get_root ops w))])"
  "play_in_tree (instrument ops) n (w, l) =
     (fst (play_in_tree ops n w),
      snd (play_in_tree ops n w), l @ [In_tree n (fst (play_in_tree ops n w))])"
  "playout_and_update (instrument ops) n (w, l) = (playout_and_update ops n w, l @ [Playout n])"
  "copy_subtree (instrument ops) c (w, l) =
     (fst (copy_subtree ops c w), snd (copy_subtree ops c w), l @ [Copy_subtree c])"
  by (simp_all add: instrument_def case_prod_beta)

lemma exact_ops_simps:
  "f_add exact_ops a b = a + b"
  "f_of_nat exact_ops n = real n"
  by (simp_all add: exact_ops_def)

lemma counting_ops_log:
  "clear_tmp_tree (instrument counting_ops) (w, l) = (w, l @ [Clear_tmp_tree])"
  "extract_subtree (instrument counting_ops) (w, l) = (w, l @ [Extract_subtree])"
  "clear_root_value (instrument counting_ops) (w, l) = (w, l @ [Clear_root_value])"
  "swap_trees (instrument counting_ops) (w, l) = (0, l @ [Swap_trees])"
  "clear_tree (instrument counting_ops) (w, l) = (0, l @ [Clear_tree])"
  "start_search (instrument counting_ops) (w, l) = (w, l @ [Start_search])"
  "play_in_tree (instrument counting_ops) n (w, l) = (False, (w, l @ [In_tree n False]))"
  "playout_and_update (instrument counting_ops) n (w, l) = (Suc w, l @ [Playout n])"
  by (simp_all add: instrument_simps counting_ops_def)

lemma counting_ops_abort:
  "abort_condition exact_ops (instrument counting_ops) s n (w, l)
   = (if 0 < w \<and> m_min_simulations s < real n then
        (if check_abort exact_ops s (real w) then (True, (w, l))
         else (False, (w, l @ [Expensive_check (real w)])))
      else (False, (w, l)))"
  by (simp add: abort_condition_def instrument_simps counting_ops_def exact_ops_def)

lemma counting_ops_select:
  "select_move FLT_MAX (get_root (instrument counting_ops) (w, l)) None mv = (True, 8)"
  by (simp add: select_move_def select_child_final_def select_child_final_step_def
      is_excluded_def instrument_simps counting_ops_def FLT_MAX_def Let_def)

lemma search_loop_numeral:
  "search_loop fops ops s (numeral k) st =
     (let nu_simulations = m_nu_simulations st;
          st1 = st\<lparr> m_nu_simulations := Suc nu_simulations \<rparr>
      in case abort_condition fops ops s nu_simulations (world st1) of
           (abort, w) \<Rightarrow>
             if abort then (Break, st1\<lparr> world := w \<rparr>)
             else (case play_in_tree ops nu_simulations w of
                     (is_out_of_mem, w') \<Rightarrow>
                       if is_out_of_mem then (Out_of_mem, st1\<lparr> world := w' \<rparr>)
                       else search_loop fops ops s (pred_numeral k)
                              (st1\<lparr> world := playout_and_update ops nu_simulations w' \<rparr>)))"
  by (simp add: numeral_eq_Suc)

lemma search_rounds_numeral:
  "search_rounds Float_max fops ops s fuel (numeral k) c st =
     (case search_loop fops ops s fuel st of
        (ex, st1) \<Rightarrow>
          if ex \<noteq> Out_of_mem then (ex, st1)
          else if \<not> m_prune_full_tree s then (Out_of_mem, st1)
          else (case copy_subtree ops c (world st1) of
                  ((copied, tmp_nu_nodes, tree_nu_nodes), w) \<Rightarrow>
                    (case prune Float_max copied tmp_nu_nodes tree_nu_nodes c c of
                       (ok, swapped, new_prune_min_count) \<Rightarrow>
                         (let st2 = st1\<lparr> world := (if swapped then swap_trees ops w
                                                      else w) \<rparr>
                          in if \<not> ok then (Out_of_mem, st2)
                             else search_rounds Float_max fops ops s fuel (pred_numeral k)
                                    new_prune_min_count st2))))"
  by (simp add: numeral_eq_Suc)

section \<open>Reuse of the tree\<close>




text \<open>
  C6: when the subtree is extracted and the extraction is aborted, \<open>search\<close> without
  \<open>always_search\<close> returns false and leaves \<open>mv\<close> as it was; the world is the one after the
  extraction and the clearing of the root value of the extracted part: nothing of the
  rest of \<open>search\<close> is run, no search loop either. With \<open>always_search\<close> the search goes
  on from that world: when both trees have more than one node the trees are swapped,
  the extracted part is the tree of the search and it is not cleared; otherwise the
  extracted part is only a root and the search starts from the cleared tree. Then the
  search is started, the search loops are run and the move is selected.
\<close>

theorem search_extraction_aborted:
  assumes "m_reuse_subtree s" and "e_check_followup e" and "e_followup_sequence e \<noteq> []"
      and "e_reuse_param_unchanged e" and "e_find_node e"
      and "\<not> e_extract_subtree e"
  shows "search Float_max double_max fops ops s e w mv max_count min_simulations max_time
           False fuel
         = (Returned False mv,
            clear_root_value ops (extract_subtree ops (clear_tmp_tree ops w)))
       \<and> search Float_max double_max fops ops s e w mv max_count min_simulations max_time
           True fuel
         = (if 1 < e_tree_nodes e \<and> 1 < e_tmp_tree_nodes e
            then search_main Float_max fops ops
                   (s\<lparr> m_reuse_count := e_tmp_tree_root_count e \<rparr>) False
                   (swap_trees ops
                      (clear_root_value ops (extract_subtree ops (clear_tmp_tree ops w))))
                   mv max_count min_simulations fuel
            else search_main Float_max fops ops
                   (s\<lparr> m_reuse_count := e_tmp_tree_root_count e \<rparr>) True
                   (clear_root_value ops (extract_subtree ops (clear_tmp_tree ops w)))
                   mv max_count min_simulations fuel)"
  using assms by (simp add: search_def search_reuse_def Let_def)

theorem search_extraction_aborted_witness:
  "search FLT_MAX DBL_MAX exact_ops (instrument counting_ops) (Search_init 24)
     \<lparr> e_nu_players = 2, e_check_followup = True, e_followup_sequence = [4],
       e_reuse_param_unchanged = True, e_tree_nodes = 100, e_find_node = True,
       e_extract_subtree = False, e_tmp_tree_nodes = 40, e_tmp_tree_root_count = 7,
       e_timer = 1 / 100, e_root_val_count = (\<lambda>i. 3) \<rparr>
     (5, []) 77 9 0 10 False 3
   = (Returned False 77, (5, [Clear_tmp_tree, Extract_subtree, Clear_root_value]))
   \<and> search FLT_MAX DBL_MAX exact_ops (instrument counting_ops) (Search_init 24)
     \<lparr> e_nu_players = 2, e_check_followup = True, e_followup_sequence = [4],
       e_reuse_param_unchanged = True, e_tree_nodes = 100, e_find_node = True,
       e_extract_subtree = False, e_tmp_tree_nodes = 40, e_tmp_tree_root_count = 7,
       e_timer = 1 / 100, e_root_val_count = (\<lambda>i. 3) \<rparr>
     (5, []) 77 9 0 10 True 3
   = (Returned True 8,
      (2, [Clear_tmp_tree, Extract_subtree, Clear_root_value, Swap_trees, Start_search,
           In_tree 0 False, Playout 0, Expensive_check 1, In_tree 1 False, Playout 1]))"
proof -
  let ?e = "\<lparr> e_nu_players = 2, e_check_followup = True, e_followup_sequence = [4],
       e_reuse_param_unchanged = True, e_tree_nodes = 100, e_find_node = True,
       e_extract_subtree = False, e_tmp_tree_nodes = 40, e_tmp_tree_root_count = 7,
       e_timer = 1 / 100, e_root_val_count = (\<lambda>i. 3) \<rparr>"
  have h: "m_reuse_subtree (Search_init 24)" "e_check_followup ?e"
    "e_followup_sequence ?e \<noteq> []" "e_reuse_param_unchanged ?e" "e_find_node ?e"
    "\<not> e_extract_subtree ?e"
    by (simp_all add: Search_init_def)
  from search_extraction_aborted [OF h, of FLT_MAX DBL_MAX exact_ops
      "instrument counting_ops" "(5, [])" 77 9 0 10 3]
  show ?thesis
    by (simp add: search_main_def search_rounds_numeral search_loop_numeral
        counting_ops_log counting_ops_abort counting_ops_select check_abort_def
        exact_ops_simps Search_init_def Let_def)
qed


section \<open>The threshold of the pruning\<close>

text \<open>
  C7, as the claim states it, fails: when 101 of 200 nodes are kept, more than half of
  them, the percentage is truncated to 50 and the threshold 16 stays as it is.
\<close>

theorem prune_percent_is_truncated:
  "prune FLT_MAX True 101 200 16 16 = (True, True, 16)
   \<and> (1 / 2 :: real) < 101 / 200"
  by (simp add: prune_def FLT_MAX_def)

text \<open>
  C7 (amended): after a successful call of \<open>prune\<close> the trees are swapped. If the truncated
  percentage of the nodes kept, \<open>tmp_nu_nodes * 100 div tree_nu_nodes\<close>, is above 50, that
  is if at least 51 percent of the nodes are kept, the new threshold is twice the old
  one, and the old one is below half of the largest value of \<open>Float\<close> (at or above it
  the call fails and the threshold is neither doubled nor capped). If the percentage
  is 50 or less the threshold is the old one.
\<close>

theorem prune_threshold:
  assumes "prune Float_max copied tmp_nu_nodes tree_nu_nodes prune_min_count old = (True, swapped, new)"
  shows "copied \<and> swapped
         \<and> (if 50 < tmp_nu_nodes * 100 div tree_nu_nodes
             then new = 2 * prune_min_count \<and> prune_min_count < Float_max / 2
             else new = prune_min_count)
         \<and> (0 < tree_nu_nodes \<longrightarrow>
              (50 < tmp_nu_nodes * 100 div tree_nu_nodes) = (51 * tree_nu_nodes \<le> 100 * tmp_nu_nodes))"
proof -
  have "(50 < tmp_nu_nodes * 100 div tree_nu_nodes) = (51 * tree_nu_nodes \<le> 100 * tmp_nu_nodes)"
    if "0 < tree_nu_nodes"
  proof -
    have "(50 < tmp_nu_nodes * 100 div tree_nu_nodes) = (51 \<le> tmp_nu_nodes * 100 div tree_nu_nodes)"
      by auto
    also have "\<dots> = (51 * tree_nu_nodes \<le> tmp_nu_nodes * 100)"
      using that by (simp add: less_eq_div_iff_mult_less_eq)
    finally show ?thesis by (simp add: mult.commute)
  qed
  moreover have "copied \<and> swapped
         \<and> (if 50 < tmp_nu_nodes * 100 div tree_nu_nodes
             then new = 2 * prune_min_count \<and> prune_min_count < Float_max / 2
             else new = prune_min_count)"
    using assms by (auto simp: prune_def Let_def split: if_splits)
  ultimately show ?thesis by blast
qed

theorem prune_threshold_witness:
  "prune FLT_MAX True 150 200 16 16 = (True, True, 32)
   \<and> prune FLT_MAX True 100 200 16 16 = (True, True, 16)"
proof -
  have a: "prune FLT_MAX True 150 200 16 16 = (True, True, 32)"
    by (simp add: prune_def FLT_MAX_def)
  have b: "prune FLT_MAX True 100 200 16 16 = (True, True, 16)"
    by (simp add: prune_def FLT_MAX_def)
  from prune_threshold [OF a] prune_threshold [OF b] a b show ?thesis by simp
qed

section \<open>The selection of a child in the tree\<close>








section \<open>The rounding of Float is monotone\<close>

text \<open>
  The conversion of a number of simulations to \<open>float\<close> does not lift a number up to
  a value of \<open>float\<close> above that value: the rounding is monotone on the positive
  numbers, and it leaves a value of \<open>float\<close> as it is.
\<close>

lemma two_to_powr: "two_to k = 2 powr of_int k"
  by (simp add: two_to_def powr_realpow [symmetric] powr_minus divide_inverse)

lemma two_to_pos: "0 < two_to k"
  by (simp add: two_to_powr)

lemma two_to_add: "two_to (a + b) = two_to a * two_to b"
  by (simp add: two_to_powr powr_add)

lemma two_to_mono: "a \<le> b \<Longrightarrow> two_to a \<le> two_to b"
  by (simp add: two_to_powr)

lemma round_to_even_bounds: "\<lfloor>y\<rfloor> \<le> round_to_even y" "round_to_even y \<le> \<lfloor>y\<rfloor> + 1"
  by (simp_all add: round_to_even_def Let_def)

lemma round_to_even_of_int: "round_to_even (of_int n) = n"
  by (simp add: round_to_even_def)

lemma round_to_even_mono:
  assumes "a \<le> b"
  shows "round_to_even a \<le> round_to_even b"
proof (cases "\<lfloor>a\<rfloor> = \<lfloor>b\<rfloor>")
  case True
  with assms have "a - of_int \<lfloor>a\<rfloor> \<le> b - of_int \<lfloor>b\<rfloor>"
    by simp
  with True show ?thesis
    by (auto simp: round_to_even_def Let_def)
next
  case False
  with assms have "\<lfloor>a\<rfloor> < \<lfloor>b\<rfloor>"
    using floor_mono [of a b] by linarith
  with round_to_even_bounds(2) [of a] round_to_even_bounds(1) [of b] show ?thesis
    by linarith
qed

lemma float_round_exp:
  "x \<noteq> 0 \<Longrightarrow>
   float_round x = two_to (float_exp x - 23) * of_int (round_to_even (x / two_to (float_exp x - 23)))"
  by (simp add: float_round_def float_exp_def Let_def)

lemma float_exp_upper:
  assumes "0 < x"
  shows "x < two_to (float_exp x + 1)"
proof -
  have "log 2 x < of_int (\<lfloor>log 2 x\<rfloor> + 1)"
    by linarith
  also have "\<dots> \<le> of_int (float_exp x + 1)"
    using assms by (simp add: float_exp_def)
  finally have "log 2 x < of_int (float_exp x + 1)" .
  with assms show ?thesis
    by (simp add: two_to_powr log_less_iff del: of_int_add)
qed

lemma float_exp_lower:
  assumes "0 < x" and "- 126 < float_exp x"
  shows "two_to (float_exp x) \<le> x"
proof -
  from assms have "float_exp x = \<lfloor>log 2 x\<rfloor>"
    by (simp add: float_exp_def max_def split: if_splits)
  then have "of_int (float_exp x) \<le> log 2 x"
    by simp
  with assms(1) show ?thesis
    by (simp add: two_to_powr le_log_iff)
qed

lemma float_exp_mono:
  assumes "0 < x" and "x \<le> y"
  shows "float_exp x \<le> float_exp y"
proof -
  from assms have "log 2 x \<le> log 2 y"
    by simp
  then have "\<lfloor>log 2 x\<rfloor> \<le> \<lfloor>log 2 y\<rfloor>"
    by (rule floor_mono)
  with assms show ?thesis
    by (simp add: float_exp_def)
qed

lemma float_round_upper:
  assumes "0 < x"
  shows "float_round x \<le> two_to (float_exp x + 1)"
proof -
  let ?u = "two_to (float_exp x - 23)"
  have u: "0 < ?u"
    by (rule two_to_pos)
  have split: "two_to (float_exp x + 1) = ?u * two_to 24"
    using two_to_add [of "float_exp x - 23" 24] by (simp add: add.commute)
  have "x / ?u \<le> two_to 24"
    using float_exp_upper [OF assms] u split by (simp add: pos_divide_le_eq mult.commute)
  then have "x / ?u \<le> of_int (2 ^ 24)"
    by (simp add: two_to_def)
  from round_to_even_mono [OF this] have "round_to_even (x / ?u) \<le> 2 ^ 24"
    by (simp only: round_to_even_of_int)
  then have "(of_int (round_to_even (x / ?u)) :: real) \<le> two_to 24"
    by (simp add: two_to_def)
  with u have "?u * of_int (round_to_even (x / ?u)) \<le> ?u * two_to 24"
    by simp
  with assms split show ?thesis
    by (simp add: float_round_exp)
qed

lemma float_round_lower:
  assumes "0 < x" and "- 126 < float_exp x"
  shows "two_to (float_exp x) \<le> float_round x"
proof -
  let ?u = "two_to (float_exp x - 23)"
  have u: "0 < ?u"
    by (rule two_to_pos)
  have split: "two_to (float_exp x) = ?u * two_to 23"
    using two_to_add [of "float_exp x - 23" 23] by simp
  have "two_to 23 \<le> x / ?u"
    using float_exp_lower [OF assms] u split by (simp add: pos_le_divide_eq mult.commute)
  then have "of_int (2 ^ 23) \<le> x / ?u"
    by (simp add: two_to_def)
  from round_to_even_mono [OF this] have "2 ^ 23 \<le> round_to_even (x / ?u)"
    by (simp only: round_to_even_of_int)
  then have "two_to 23 \<le> (of_int (round_to_even (x / ?u)) :: real)"
    by (simp add: two_to_def)
  with u have "?u * two_to 23 \<le> ?u * of_int (round_to_even (x / ?u))"
    by simp
  with assms split show ?thesis
    by (simp add: float_round_exp)
qed

lemma float_round_mono:
  assumes "0 < x" and "x \<le> y"
  shows "float_round x \<le> float_round y"
proof (cases "float_exp x = float_exp y")
  case True
  let ?u = "two_to (float_exp y - 23)"
  have u: "0 < ?u"
    by (rule two_to_pos)
  with assms have "x / ?u \<le> y / ?u"
    by (simp add: divide_right_mono)
  from round_to_even_mono [OF this] u
  have "?u * of_int (round_to_even (x / ?u)) \<le> ?u * of_int (round_to_even (y / ?u))"
    by simp
  with assms True show ?thesis
    by (simp add: float_round_exp)
next
  case False
  with float_exp_mono [OF assms] have less: "float_exp x + 1 \<le> float_exp y"
    by simp
  have "- 126 \<le> float_exp x"
    by (simp add: float_exp_def)
  with less have "- 126 < float_exp y"
    by simp
  with assms have "two_to (float_exp y) \<le> float_round y"
    by (intro float_round_lower) simp_all
  moreover have "float_round x \<le> two_to (float_exp x + 1)"
    using assms(1) by (rule float_round_upper)
  moreover have "two_to (float_exp x + 1) \<le> two_to (float_exp y)"
    using less by (rule two_to_mono)
  ultimately show ?thesis
    by linarith
qed

lemma float_ops_of_nat_le:
  assumes "float_round m = m" and "real k \<le> m"
  shows "f_of_nat float_ops k \<le> m"
proof (cases "k = 0")
  case True
  with assms(2) show ?thesis
    by (simp add: float_ops_def float_round_def)
next
  case False
  then have "0 < real k"
    by simp
  from float_round_mono [OF this assms(2)] assms(1) show ?thesis
    by (simp add: float_ops_def)
qed

section \<open>The minimum number of simulations\<close>













end
